theory Spec2Isabelle
  imports Complex_Main "HOL-Library.Word"
begin

unbundle bit_operations_syntax

section \<open>Values of the indexer\<close>

text \<open>
  The handler of \<^verbatim>\<open>src/handleEvent.ts\<close> works on JavaScript values. Addresses, 32-byte
  identifiers and transaction hashes are the strings the event decoder delivers (the code compares
  them with \<^verbatim>\<open>==\<close> and splices them into collection names); a decoded \<^verbatim>\<open>uint256\<close>
  (an ethers BigNumber) is a 256-bit word; a JavaScript number that holds a count or an
  identifier is a natural number. Amounts in USD are IEEE doubles in the code and exact rationals
  here.
\<close>

type_synonym byte = "8 word"
type_synonym uint256 = "256 word"
type_synonym address = string
type_synonym hexString = string

datatype json =
    JNull
  | JBool bool
  | JNum int
  | JStr string
  | JArr "json list"
  | JObj "(string \<times> json) list"

text \<open>
  Every way in which an \<^verbatim>\<open>await\<close> of the handler can reject: a failed content fetch, a
  failed contract read, a failed price lookup, \<^verbatim>\<open>BigNumber.toNumber()\<close> on a value
  beyond the safe integers, \<^verbatim>\<open>updateById\<close> on a missing document, and a TypeError of the
  JavaScript runtime.
\<close>

datatype error =
    ContentFetchFailure string
  | ExternalReadFailure string
  | PriceFetchFailure string
  | Overflow
  | DocumentNotFound
  | TypeError

record metaPtr =
  protocol :: uint256
  pointer :: string

record project =
  fullId :: hexString
  id_p :: nat
  metaPtr_p :: "string option"
  metadata_p :: "json option"
  votesUSD_p :: rat
  votes_p :: nat
  owners :: "address list"

record round =
  id_r :: address
  votesUSD_r :: rat
  votes_r :: nat
  implementationAddress :: address
  applicationMetaPtr :: metaPtr
  applicationMetadata :: json
  applicationsStartTime :: nat
  applicationsEndTime :: nat
  roundStartTime :: nat
  roundEndTime :: nat

record application =
  id_a :: hexString
  projectId_a :: "nat option"
  roundId :: address
  status :: "json option"
  payoutAddress :: "json option"

record vote =
  id_v :: hexString
  token :: address
  voter :: address
  grantAddress :: address
  amount :: nat
  amountUSD :: rat
  fullProjectId_v :: hexString
  roundAddress :: address
  projectApplicationId :: string

subsection \<open>Storage\<close>

text \<open>
  \<^verbatim>\<open>indexer.storage\<close> is a store of named collections of documents. The handler uses five
  families of collections: \<^verbatim>\<open>projects\<close>, \<^verbatim>\<open>rounds\<close>,
  \<^verbatim>\<open>rounds/<round>/projects\<close>, \<^verbatim>\<open>rounds/<round>/votes\<close> and
  \<^verbatim>\<open>rounds/<round>/projects/<project>/votes\<close>. The field \<open>writes\<close> is the journal of
  the write calls made on the store, in the order in which they were made.
\<close>

datatype mutation =
    InsertedProject project
  | UpdatedProject nat project
  | InsertedRound round
  | InsertedApplication address application
  | UpdatedApplication address string application
  | InsertedVote address vote
  | InsertedProjectVote address hexString vote

record jsonStorage =
  projects :: "project list"
  rounds :: "round list"
  roundProjects :: "address \<Rightarrow> application list"
  roundVotes :: "address \<Rightarrow> vote list"
  projectVotes :: "address \<Rightarrow> hexString \<Rightarrow> vote list"
  writes :: "mutation list"

text \<open>
  The calls of the store that the handler makes: \<^verbatim>\<open>insert\<close> appends a document;
  \<^verbatim>\<open>updateById\<close> replaces the first document with the given id by the callback's result and
  rejects when there is none (the \<^verbatim>\<open>MetadataUpdated\<close> case catches that rejection as
  "Project not found"); \<^verbatim>\<open>findById\<close> and \<^verbatim>\<open>findOneWhere\<close> are \<^const>\<open>find\<close>, the
  first match or nothing. \<open>updateFirst\<close> returns the new document with the new list.
\<close>

fun updateFirst :: "('a \<Rightarrow> bool) \<Rightarrow> ('a \<Rightarrow> 'a) \<Rightarrow> 'a list \<Rightarrow> ('a \<times> 'a list) option" where
  "updateFirst P f [] = None"
| "updateFirst P f (x # xs) =
     (if P x then Some (f x, f x # xs)
      else (case updateFirst P f xs of
              None \<Rightarrow> None
            | Some (y, ys) \<Rightarrow> Some (y, x # ys)))"

definition insertProject :: "project \<Rightarrow> jsonStorage \<Rightarrow> jsonStorage" where
  "insertProject p st =
     st\<lparr>projects := projects st @ [p], writes := writes st @ [InsertedProject p]\<rparr>"

definition updateProjectById ::
  "nat \<Rightarrow> (project \<Rightarrow> project) \<Rightarrow> jsonStorage \<Rightarrow> error + jsonStorage" where
  "updateProjectById n f st =
     (case updateFirst (\<lambda>p. id_p p = n) f (projects st) of
        None \<Rightarrow> Inl DocumentNotFound
      | Some (p', ps) \<Rightarrow>
          Inr (st\<lparr>projects := ps, writes := writes st @ [UpdatedProject n p']\<rparr>))"

definition insertRound :: "round \<Rightarrow> jsonStorage \<Rightarrow> jsonStorage" where
  "insertRound r st =
     st\<lparr>rounds := rounds st @ [r], writes := writes st @ [InsertedRound r]\<rparr>"

definition insertApplication :: "address \<Rightarrow> application \<Rightarrow> jsonStorage \<Rightarrow> jsonStorage" where
  "insertApplication rnd a st =
     st\<lparr>roundProjects := (roundProjects st)(rnd := roundProjects st rnd @ [a]),
        writes := writes st @ [InsertedApplication rnd a]\<rparr>"

definition updateApplicationById ::
  "address \<Rightarrow> string \<Rightarrow> (application \<Rightarrow> application) \<Rightarrow> jsonStorage \<Rightarrow> error + jsonStorage" where
  "updateApplicationById rnd i f st =
     (case updateFirst (\<lambda>a. id_a a = i) f (roundProjects st rnd) of
        None \<Rightarrow> Inl DocumentNotFound
      | Some (a', as) \<Rightarrow>
          Inr (st\<lparr>roundProjects := (roundProjects st)(rnd := as),
                 writes := writes st @ [UpdatedApplication rnd i a']\<rparr>))"

definition insertVote :: "address \<Rightarrow> vote \<Rightarrow> jsonStorage \<Rightarrow> jsonStorage" where
  "insertVote rnd v st =
     st\<lparr>roundVotes := (roundVotes st)(rnd := roundVotes st rnd @ [v]),
        writes := writes st @ [InsertedVote rnd v]\<rparr>"

definition insertProjectVote :: "address \<Rightarrow> hexString \<Rightarrow> vote \<Rightarrow> jsonStorage \<Rightarrow> jsonStorage" where
  "insertProjectVote rnd pid v st =
     st\<lparr>projectVotes := (projectVotes st)(rnd := (projectVotes st rnd)(pid := projectVotes st rnd pid @ [v])),
        writes := writes st @ [InsertedProjectVote rnd pid v]\<rparr>"

subsection \<open>The indexer, its cache and its capabilities\<close>

datatype abi = RoundImplementationABI | QuadraticFundingImplementationABI

text \<open>A JavaScript time value: \<open>None\<close> is \<^verbatim>\<open>NaN\<close>, the time of an invalid Date.\<close>

type_synonym timeValue = "int option"

type_synonym priceKey = "string \<times> uint256 \<times> timeValue \<times> timeValue"

record indexer =
  chainId :: uint256
  storage :: jsonStorage
  ipfsCache :: "string \<rightharpoonup> json"
  priceCache :: "priceKey \<rightharpoonup> rat"
  subscriptions :: "(address \<times> abi \<times> nat) list"

text \<open>
  What the handler reads from outside the indexer: the hash and byte conversion of the ethers
  library, the IPFS gateway, the price service and the calls on a round contract. A capability
  that can reject returns \<open>Inl\<close> with the reason.
\<close>

record env =
  keccak256 :: "byte list \<Rightarrow> hexString"
  arrayify :: "address \<Rightarrow> byte list"
  ipfs :: "string \<Rightarrow> string + json"
  getPrice :: "string \<Rightarrow> uint256 \<Rightarrow> timeValue \<Rightarrow> timeValue \<Rightarrow> string + rat"
  callApplicationMetaPtr :: "address \<Rightarrow> string + metaPtr"
  callApplicationsStartTime :: "address \<Rightarrow> string + uint256"
  callApplicationsEndTime :: "address \<Rightarrow> string + uint256"
  callRoundStartTime :: "address \<Rightarrow> string + uint256"
  callRoundEndTime :: "address \<Rightarrow> string + uint256"

datatype args =
    ProjectCreatedArgs uint256 address
  | MetadataUpdatedArgs uint256 metaPtr
  | OwnerAddedArgs uint256 address
  | OwnerRemovedArgs uint256 address
  | RoundCreatedArgs address address address
  | NewProjectApplicationArgs hexString
  | ProjectsMetaPtrUpdatedArgs metaPtr
  | VotingContractCreatedArgs address
  | VotedArgs address uint256 address address hexString address
  | OtherArgs "(string \<times> json) list"

record event =
  name :: string
  address :: address
  blockNumber :: nat
  transactionHash :: hexString
  args :: args

section \<open>The project identifier\<close>

fun bytesBE :: "nat \<Rightarrow> nat \<Rightarrow> byte list" where
  "bytesBE 0 v = []"
| "bytesBE (Suc k) v = bytesBE k (v div 256) @ [of_nat (v mod 256)]"

definition uint256Bytes :: "uint256 \<Rightarrow> byte list" where
  "uint256Bytes w = bytesBE 32 (unat w)"


text \<open>
  \<^verbatim>\<open>solidityPack(["uint256", "address", "uint256"], [chainId, registry, projectId])\<close>:
  the tightly packed encoding, 32 big-endian bytes for each number around the bytes of the
  address. The numbers are values of \<^verbatim>\<open>uint256\<close>, as the type list of the call declares
  them, and the address is one that ethers turns into bytes; a JavaScript number that is no safe
  integer and a string that is no address, which ethers rejects, are outside the model.
\<close>

definition projectIdPreimage :: "env \<Rightarrow> uint256 \<Rightarrow> address \<Rightarrow> uint256 \<Rightarrow> byte list" where
  "projectIdPreimage env projectChainId projectRegistryAddress projectId =
     uint256Bytes projectChainId @ arrayify env projectRegistryAddress @ uint256Bytes projectId"

definition fullProjectId :: "env \<Rightarrow> uint256 \<Rightarrow> uint256 \<Rightarrow> address \<Rightarrow> hexString" where
  "fullProjectId env projectChainId projectId projectRegistryAddress =
     keccak256 env (projectIdPreimage env projectChainId projectRegistryAddress projectId)"

section \<open>The event handler\<close>

text \<open>
  \<^verbatim>\<open>BigNumber.toNumber()\<close> throws for a value beyond the safe integers of JavaScript.
\<close>

definition toNumber :: "uint256 \<Rightarrow> error + nat" where
  "toNumber w = (if unat w \<le> 2 ^ 53 - 1 then Inr (unat w) else Inl Overflow)"

text \<open>
  \<^verbatim>\<open>cache.lazy(key, fn)\<close>: the cached value when there is one, otherwise the value that
  \<open>fn\<close> fetches, which is stored when the fetch succeeds. The keys \<^verbatim>\<open>ipfs-<cid>\<close> and
  \<^verbatim>\<open>price-<token>-<chainId>-<to>-<from>\<close> are the content id and the tuple of the parts.
\<close>

definition lazy :: "('k \<rightharpoonup> 'v) \<Rightarrow> 'k \<Rightarrow> (string + 'v) \<Rightarrow> (string + 'v) \<times> ('k \<rightharpoonup> 'v)" where
  "lazy c k fetched =
     (case c k of
        Some v \<Rightarrow> (Inr v, c)
      | None \<Rightarrow>
          (case fetched of
             Inl reason \<Rightarrow> (Inl reason, c)
           | Inr v \<Rightarrow> (Inr v, c(k \<mapsto> v))))"

definition cachedIpfs :: "env \<Rightarrow> string \<Rightarrow> indexer \<Rightarrow> (error + json) \<times> indexer" where
  "cachedIpfs env cid idx =
     (case lazy (ipfsCache idx) cid (ipfs env cid) of
        (Inl reason, c) \<Rightarrow> (Inl (ContentFetchFailure reason), idx)
      | (Inr v, c) \<Rightarrow> (Inr v, idx\<lparr>ipfsCache := c\<rparr>))"

definition convertToUSD ::
  "env \<Rightarrow> string \<Rightarrow> uint256 \<Rightarrow> uint256 \<Rightarrow> timeValue \<Rightarrow> timeValue \<Rightarrow> indexer
     \<Rightarrow> (error + rat) \<times> indexer" where
  "convertToUSD env tok amt chain fromTimestamp toTimestamp idx =
     (case lazy (priceCache idx) (tok, chain, toTimestamp, fromTimestamp)
             (getPrice env tok chain fromTimestamp toTimestamp) of
        (Inl reason, c) \<Rightarrow> (Inl (PriceFetchFailure reason), idx)
      | (Inr price, c) \<Rightarrow>
          (Inr (of_nat (unat amt) / 10 ^ 18 * price), idx\<lparr>priceCache := c\<rparr>))"

text \<open>
  \<^verbatim>\<open>indexer.subscribe(address, abi, fromBlock)\<close> registers a contract with the indexer.
\<close>

definition subscribe :: "address \<Rightarrow> abi \<Rightarrow> nat \<Rightarrow> indexer \<Rightarrow> indexer" where
  "subscribe a abi fromBlock idx = idx\<lparr>subscriptions := subscriptions idx @ [(a, abi, fromBlock)]\<rparr>"

definition toLowerCase :: "string \<Rightarrow> string" where
  "toLowerCase s =
     map (\<lambda>c. let n = (of_char c :: nat) in if 65 \<le> n \<and> n \<le> 90 then char_of (n + 32) else c) s"

definition utf8 :: "string \<Rightarrow> byte list" where
  "utf8 s = map (\<lambda>c. of_nat (of_char c :: nat)) s"

text \<open>
  \<^verbatim>\<open>new Date(seconds * 1000).getTime()\<close>: a time beyond 8.64e15 milliseconds gives an
  invalid Date, whose time is \<^verbatim>\<open>NaN\<close>.
\<close>

definition dateOfSeconds :: "nat \<Rightarrow> timeValue" where
  "dateOfSeconds t = (if int t * 1000 \<le> 8640000000000000 then Some (int t * 1000) else None)"

definition floorSeconds :: "timeValue \<Rightarrow> timeValue" where
  "floorSeconds t = map_option (\<lambda>ms. ms div 1000) t"

definition minTime :: "int \<Rightarrow> timeValue \<Rightarrow> timeValue" where
  "minTime now t = map_option (\<lambda>ms. min now ms) t"

definition field :: "json \<Rightarrow> string \<Rightarrow> json option" where
  "field j k = (case j of JObj kvs \<Rightarrow> map_of kvs k | _ \<Rightarrow> None)"

text \<open>
  The loop of \<^verbatim>\<open>ProjectsMetaPtrUpdated\<close> over the fetched list: each entry updates the
  application named by the part of its \<^verbatim>\<open>id\<close> before the first dash. An entry whose
  \<^verbatim>\<open>id\<close> is not a string, or an application that is not stored, stops the loop with the
  updates made so far in place.
\<close>

fun updateApplications ::
  "address \<Rightarrow> json list \<Rightarrow> jsonStorage \<Rightarrow> (error + unit) \<times> jsonStorage" where
  "updateApplications rnd [] st = (Inr (), st)"
| "updateApplications rnd (projectApp # rest) st =
     (case field projectApp ''id'' of
        Some (JStr i) \<Rightarrow>
          (case updateApplicationById rnd (takeWhile (\<lambda>c. c \<noteq> CHR ''-'') i)
                  (\<lambda>a. a\<lparr>status := field projectApp ''status'',
                          payoutAddress := field projectApp ''payoutAddress''\<rparr>) st of
             Inl e \<Rightarrow> (Inl e, st)
           | Inr st' \<Rightarrow> updateApplications rnd rest st')
      | _ \<Rightarrow> (Inl TypeError, st))"

text \<open>
  The cases of the \<^verbatim>\<open>switch\<close> of \<^verbatim>\<open>handleEvent\<close>, one definition for each, in the order of
  the source. Each returns the outcome (\<open>Inl\<close> for a rejected promise) with the indexer as the
  run leaves it. Arguments that do not have the shape of the event's name, which the decoder
  never delivers, end in a TypeError.
\<close>

definition handleProjectCreated :: "env \<Rightarrow> indexer \<Rightarrow> event \<Rightarrow> (error + unit) \<times> indexer" where
  "handleProjectCreated env idx e =
     (case args e of
        ProjectCreatedArgs projectID owner \<Rightarrow>
          (case toNumber projectID of
             Inl err \<Rightarrow> (Inl err, idx)
           | Inr n \<Rightarrow>
               (Inr (), idx\<lparr>storage := insertProject
                  \<lparr>fullId = fullProjectId env (chainId idx) (of_nat n) (address e),
                   id_p = n,
                   metaPtr_p = None,
                   metadata_p = None,
                   votesUSD_p = 0,
                   votes_p = 0,
                   owners = [owner]\<rparr> (storage idx)\<rparr>))
      | _ \<Rightarrow> (Inl TypeError, idx))"

definition handleMetadataUpdated :: "env \<Rightarrow> indexer \<Rightarrow> event \<Rightarrow> (error + unit) \<times> indexer" where
  "handleMetadataUpdated env idx e =
     (case args e of
        MetadataUpdatedArgs projectID mp \<Rightarrow>
          (case cachedIpfs env (pointer mp) idx of
             (Inl err, idx') \<Rightarrow> (Inl err, idx')
           | (Inr metadata, idx') \<Rightarrow>
               (case toNumber projectID of
                  Inl err \<Rightarrow> (Inl err, idx')
                | Inr n \<Rightarrow>
                    (case updateProjectById n
                            (\<lambda>p. p\<lparr>metaPtr_p := Some (pointer mp), metadata_p := Some metadata\<rparr>)
                            (storage idx') of
                       Inl err \<Rightarrow> (Inr (), idx')
                     | Inr st \<Rightarrow> (Inr (), idx'\<lparr>storage := st\<rparr>))))
      | _ \<Rightarrow> (Inl TypeError, idx))"

definition handleOwnerAdded :: "env \<Rightarrow> indexer \<Rightarrow> event \<Rightarrow> (error + unit) \<times> indexer" where
  "handleOwnerAdded env idx e =
     (case args e of
        OwnerAddedArgs projectID owner \<Rightarrow>
          (case toNumber projectID of
             Inl err \<Rightarrow> (Inl err, idx)
           | Inr n \<Rightarrow>
               (case updateProjectById n (\<lambda>p. p\<lparr>owners := owners p @ [owner]\<rparr>) (storage idx) of
                  Inl err \<Rightarrow> (Inl err, idx)
                | Inr st \<Rightarrow> (Inr (), idx\<lparr>storage := st\<rparr>)))
      | _ \<Rightarrow> (Inl TypeError, idx))"

definition handleOwnerRemoved :: "env \<Rightarrow> indexer \<Rightarrow> event \<Rightarrow> (error + unit) \<times> indexer" where
  "handleOwnerRemoved env idx e =
     (case args e of
        OwnerRemovedArgs projectID owner \<Rightarrow>
          (case toNumber projectID of
             Inl err \<Rightarrow> (Inl err, idx)
           | Inr n \<Rightarrow>
               (case updateProjectById n
                       (\<lambda>p. p\<lparr>owners := filter (\<lambda>x. x = owner) (owners p)\<rparr>) (storage idx) of
                  Inl err \<Rightarrow> (Inl err, idx)
                | Inr st \<Rightarrow> (Inr (), idx\<lparr>storage := st\<rparr>)))
      | _ \<Rightarrow> (Inl TypeError, idx))"

definition readFailed :: "string + 'a \<Rightarrow> error + 'a" where
  "readFailed r = (case r of Inl reason \<Rightarrow> Inl (ExternalReadFailure reason) | Inr v \<Rightarrow> Inr v)"

text \<open>
  \<^verbatim>\<open>RoundCreated\<close> subscribes to the round contract, starts five reads on it and awaits them
  in the order of the source: the application pointer, its content, then the four times.
\<close>

definition handleRoundCreated :: "env \<Rightarrow> indexer \<Rightarrow> event \<Rightarrow> (error + unit) \<times> indexer" where
  "handleRoundCreated env idx e =
     (case args e of
        RoundCreatedArgs rnd ownedBy roundImplementation \<Rightarrow>
          (let idx1 = subscribe rnd RoundImplementationABI (blockNumber e) idx in
           case readFailed (callApplicationMetaPtr env rnd) of
             Inl err \<Rightarrow> (Inl err, idx1)
           | Inr mp \<Rightarrow>
           (case cachedIpfs env (pointer mp) idx1 of
             (Inl err, idx2) \<Rightarrow> (Inl err, idx2)
           | (Inr metadata, idx2) \<Rightarrow>
           (case readFailed (callApplicationsStartTime env rnd) of
             Inl err \<Rightarrow> (Inl err, idx2)
           | Inr aStart \<Rightarrow>
           (case readFailed (callApplicationsEndTime env rnd) of
             Inl err \<Rightarrow> (Inl err, idx2)
           | Inr aEnd \<Rightarrow>
           (case readFailed (callRoundStartTime env rnd) of
             Inl err \<Rightarrow> (Inl err, idx2)
           | Inr rStart \<Rightarrow>
           (case readFailed (callRoundEndTime env rnd) of
             Inl err \<Rightarrow> (Inl err, idx2)
           | Inr rEnd \<Rightarrow>
               (Inr (), idx2\<lparr>storage := insertRound
                  \<lparr>id_r = rnd,
                   votesUSD_r = 0,
                   votes_r = 0,
                   implementationAddress = roundImplementation,
                   applicationMetaPtr = mp,
                   applicationMetadata = metadata,
                   applicationsStartTime = unat aStart,
                   applicationsEndTime = unat aEnd,
                   roundStartTime = unat rStart,
                   roundEndTime = unat rEnd\<rparr> (storage idx2)\<rparr>)))))))
      | _ \<Rightarrow> (Inl TypeError, idx))"

definition handleNewProjectApplication ::
  "env \<Rightarrow> indexer \<Rightarrow> event \<Rightarrow> (error + unit) \<times> indexer" where
  "handleNewProjectApplication env idx e =
     (case args e of
        NewProjectApplicationArgs proj \<Rightarrow>
          (let found = find (\<lambda>p. fullId p = proj) (projects (storage idx)) in
           (Inr (), idx\<lparr>storage := insertApplication (address e)
              \<lparr>id_a = proj,
               projectId_a = map_option id_p found,
               roundId = address e,
               status = Some JNull,
               payoutAddress = None\<rparr> (storage idx)\<rparr>))
      | _ \<Rightarrow> (Inl TypeError, idx))"

definition handleProjectsMetaPtrUpdated ::
  "env \<Rightarrow> indexer \<Rightarrow> event \<Rightarrow> (error + unit) \<times> indexer" where
  "handleProjectsMetaPtrUpdated env idx e =
     (case args e of
        ProjectsMetaPtrUpdatedArgs newMetaPtr \<Rightarrow>
          (case cachedIpfs env (pointer newMetaPtr) idx of
             (Inl err, idx') \<Rightarrow> (Inl err, idx')
           | (Inr (JArr entries), idx') \<Rightarrow>
               (case updateApplications (address e) entries (storage idx') of
                  (r, st) \<Rightarrow> (r, idx'\<lparr>storage := st\<rparr>))
           | (Inr (JStr s), idx') \<Rightarrow> (if s = [] then (Inr (), idx') else (Inl TypeError, idx'))
           | (Inr _, idx') \<Rightarrow> (Inl TypeError, idx'))
      | _ \<Rightarrow> (Inl TypeError, idx))"

definition handleVotingContractCreated ::
  "env \<Rightarrow> indexer \<Rightarrow> event \<Rightarrow> (error + unit) \<times> indexer" where
  "handleVotingContractCreated env idx e =
     (case args e of
        VotingContractCreatedArgs votingContractAddress \<Rightarrow>
          (Inr (), subscribe votingContractAddress QuadraticFundingImplementationABI (blockNumber e) idx)
      | _ \<Rightarrow> (Inl TypeError, idx))"

text \<open>
  \<^verbatim>\<open>Voted\<close>: \<open>now\<close> is the reading of \<^verbatim>\<open>new Date()\<close> in milliseconds. The price window
  runs from the start of the round to the earlier of \<open>now\<close> and the end of the round.
\<close>

definition handleVoted :: "env \<Rightarrow> int \<Rightarrow> indexer \<Rightarrow> event \<Rightarrow> (error + unit) \<times> indexer" where
  "handleVoted env now idx e =
     (case args e of
        VotedArgs tok amt votr grant pid rnd \<Rightarrow>
          (let projectApplicationId = pid @ ''-'' @ rnd;
               voteId = keccak256 env (utf8 (transactionHash e @ ''-'' @ votr @ ''-'' @ grant));
               projectApplication = find (\<lambda>a. id_a a = pid) (roundProjects (storage idx) rnd);
               rd = find (\<lambda>r. id_r r = rnd) (rounds (storage idx))
           in case (projectApplication, rd) of
                (Some app, Some r) \<Rightarrow>
                  (if status app \<noteq> Some (JStr ''APPROVED'') then (Inr (), idx)
                   else
                     (let startDate = dateOfSeconds (roundStartTime r);
                          endDate = dateOfSeconds (roundEndTime r)
                      in case convertToUSD env (toLowerCase tok) amt (chainId idx)
                                (floorSeconds startDate) (floorSeconds (minTime now endDate)) idx of
                           (Inl err, idx') \<Rightarrow> (Inl err, idx')
                         | (Inr usd, idx') \<Rightarrow>
                             (let v = \<lparr>id_v = voteId,
                                       token = tok,
                                       voter = votr,
                                       grantAddress = grant,
                                       amount = unat amt,
                                       amountUSD = usd,
                                       fullProjectId_v = pid,
                                       roundAddress = rnd,
                                       projectApplicationId = projectApplicationId\<rparr>
                              in (Inr (), idx'\<lparr>storage :=
                                    insertProjectVote rnd pid v (insertVote rnd v (storage idx'))\<rparr>))))
              | _ \<Rightarrow> (Inr (), idx))
      | _ \<Rightarrow> (Inl TypeError, idx))"

text \<open>
  The handler: \<open>env\<close> holds what it reads from outside, \<open>now\<close> the wall clock, \<open>idx\<close> the
  indexer with its storage and cache. An event name without a case falls through the
  \<^verbatim>\<open>switch\<close>.
\<close>

definition handleEvent :: "env \<Rightarrow> int \<Rightarrow> indexer \<Rightarrow> event \<Rightarrow> (error + unit) \<times> indexer" where
  "handleEvent env now idx e =
     (if name e = ''ProjectCreated'' then handleProjectCreated env idx e
      else if name e = ''MetadataUpdated'' then handleMetadataUpdated env idx e
      else if name e = ''OwnerAdded'' then handleOwnerAdded env idx e
      else if name e = ''OwnerRemoved'' then handleOwnerRemoved env idx e
      else if name e = ''RoundCreated'' then handleRoundCreated env idx e
      else if name e = ''NewProjectApplication'' then handleNewProjectApplication env idx e
      else if name e = ''ProjectsMetaPtrUpdated'' then handleProjectsMetaPtrUpdated env idx e
      else if name e = ''VotingContractCreated'' then handleVotingContractCreated env idx e
      else if name e = ''Voted'' then handleVoted env now idx e
      else (Inr (), idx))"

section \<open>Chunks of a time span\<close>



fun chunksFrom :: "int \<Rightarrow> int \<Rightarrow> int \<Rightarrow> (int \<times> int) list \<Rightarrow> bool" where
  "chunksFrom millis chunkBy i [] = (millis \<le> i)"
| "chunksFrom millis chunkBy i (c # cs) =
     (i < millis \<and> c = (i, min (i + chunkBy) millis) \<and> chunksFrom millis chunkBy (i + chunkBy) cs)"

section \<open>Notions used to state the properties\<close>




section \<open>Role events of the changeset compiler\<close>

text \<open>
  The handler above knows no \<^verbatim>\<open>RoleGranted\<close> or \<^verbatim>\<open>RoleRevoked\<close> case. These events are
  compiled by \<^verbatim>\<open>src/indexer/allo/v1/handleEvent.ts\<close>, of which the sources hold the test
  \<^verbatim>\<open>handleEvent.test.ts\<close> only. Every definition of this section is modelled from the
  spec.
\<close>

text \<open>
  Modelled from the spec: the contracts that emit role events, one for each known contract family
  and version of section 4.2, under the names that the test gives them
  (\<^verbatim>\<open>AlloV1/ProgramImplementation/V1\<close>, \<^verbatim>\<open>AlloV1/RoundImplementation/V1\<close>,
  \<^verbatim>\<open>AlloV1/RoundImplementation/V2\<close>). The dispatch table that knows them is absent.
\<close>

datatype contractName =
    AlloV1_ProgramImplementation_V1
  | AlloV1_RoundImplementation_V1
  | AlloV1_RoundImplementation_V2

text \<open>
  Modelled from the spec: the roles of a project (\<^verbatim>\<open>owner\<close>, \<^verbatim>\<open>member\<close>) and of a round
  (\<^verbatim>\<open>admin\<close>, \<^verbatim>\<open>manager\<close>) of section 3; the schema that declares them is absent.
\<close>

datatype projectRoleName = Owner | Member

datatype roundRoleName = Admin | Manager

datatype semanticRole = ProjectRole projectRoleName | RoundRole roundRoleName

text \<open>
  Modelled from the spec: the four role changesets of section 4.3, with the fields that the
  test expects (chain id, entity id, address, role, and the block of creation for an insert).
  The changeset type is absent.
\<close>

datatype changeset =
    InsertProjectRole nat address address projectRoleName nat
  | DeleteAllProjectRolesByRoleAndAddress nat address projectRoleName address
  | InsertRoundRole nat address address roundRoleName nat
  | DeleteAllRoundRolesByRoleAndAddress nat address roundRoleName address

text \<open>
  Modelled from the spec: the failures of section 7 that reach the caller. An unknown role
  constant is not among them. The compiler that raises them is absent.
\<close>

datatype compileError =
    ReadFailure string
  | FetchFailure string
  | MalformedEventParams

text \<open>
  Modelled from the spec: a role event as the compiler receives it (section 6), with the
  parameters \<^verbatim>\<open>role\<close> and \<^verbatim>\<open>account\<close> that the test sends. The event type of the
  compiler is absent.
\<close>

datatype roleEventName = RoleGranted | RoleRevoked

record roleEvent =
  re_chainId :: nat
  re_contractName :: contractName
  re_name :: roleEventName
  re_address :: address
  re_blockNumber :: nat
  re_role :: hexString
  re_account :: address

text \<open>
  Modelled from the spec: the all-zero role constant of section 4.2, written as the test sends
  it. The module that holds the role constants is absent.
\<close>

definition zeroRole :: hexString where
  "zeroRole = ''0x0000000000000000000000000000000000000000000000000000000000000000''"

text \<open>
  Modelled from the spec: the second role constant of a program (section 4.2). The spec gives
  no value; this is the role that the test sends to the program implementation and expects to
  resolve to \<^verbatim>\<open>member\<close>. The module that holds the role constants is absent.
\<close>

definition programMemberRole :: hexString where
  "programMemberRole = ''0xaa630204f2780b6f080cc77cc0e9c0a5c21e92eb0c6771e709255dd27d6de132''"

text \<open>
  Modelled from the spec: the second role constant of a round (section 4.2). The spec gives no
  value; this is the role that the test sends to the round implementation, V1 and V2 alike, and
  expects to resolve to \<^verbatim>\<open>manager\<close>. The module that holds the role constants is absent.
\<close>

definition roundManagerRole :: hexString where
  "roundManagerRole = ''0xec61da14b5abbac5c5fda6f1d57642a264ebd5d0674f35852829746dfb8174a5''"




text \<open>
  Modelled from the spec: the role table of section 4.2, static configuration with one row for
  each contract family and version. The Role Resolver is absent from the sources.
\<close>

definition roleTable :: "(contractName \<times> (hexString \<times> semanticRole) list) list" where
  "roleTable =
     [(AlloV1_ProgramImplementation_V1,
         [(zeroRole, ProjectRole Owner), (programMemberRole, ProjectRole Member)]),
      (AlloV1_RoundImplementation_V1,
         [(zeroRole, RoundRole Admin), (roundManagerRole, RoundRole Manager)]),
      (AlloV1_RoundImplementation_V2,
         [(zeroRole, RoundRole Admin), (roundManagerRole, RoundRole Manager)])]"

text \<open>
  Modelled from the spec: the resolution of a role constant against the role table (section
  4.2), which yields no mapping for a constant that the row of the contract does not hold. The
  Role Resolver is absent from the sources.
\<close>

definition resolveRole :: "contractName \<Rightarrow> hexString \<Rightarrow> semanticRole option" where
  "resolveRole c r = (case map_of roleTable c of None \<Rightarrow> None | Some row \<Rightarrow> map_of row r)"

text \<open>
  Modelled from the spec: the row of section 4.3 for \<^verbatim>\<open>RoleGranted\<close> and
  \<^verbatim>\<open>RoleRevoked\<close> (resolve the role, emit the matching insert or bulk delete with the
  contract's own address as entity id, and nothing for an unknown constant). The compiler
  itself is absent from the sources.
\<close>

definition compileRoleEvent :: "roleEvent \<Rightarrow> compileError + changeset list" where
  "compileRoleEvent ev =
     (case resolveRole (re_contractName ev) (re_role ev) of
        None \<Rightarrow> Inr []
      | Some (ProjectRole r) \<Rightarrow>
          (case re_name ev of
             RoleGranted \<Rightarrow>
               Inr [InsertProjectRole (re_chainId ev) (re_address ev) (re_account ev) r
                      (re_blockNumber ev)]
           | RoleRevoked \<Rightarrow>
               Inr [DeleteAllProjectRolesByRoleAndAddress (re_chainId ev) (re_address ev) r
                      (re_account ev)])
      | Some (RoundRole r) \<Rightarrow>
          (case re_name ev of
             RoleGranted \<Rightarrow>
               Inr [InsertRoundRole (re_chainId ev) (re_address ev) (re_account ev) r
                      (re_blockNumber ev)]
           | RoleRevoked \<Rightarrow>
               Inr [DeleteAllRoundRolesByRoleAndAddress (re_chainId ev) (re_address ev) r
                      (re_account ev)]))"

section \<open>Concrete inputs\<close>

text \<open>
  The addresses of \<^verbatim>\<open>handleEvent.test.ts\<close> and an environment that answers every request:
  the digest is the preimage itself, byte for byte (a stand-in without collisions for
  Keccak-256), the content of every pointer is the test's metadata object, and the price of a
  token is the end of the requested time window.
\<close>

definition addressOne :: address where
  "addressOne = ''0x0000000000000000000000000000000000000001''"

definition addressTwo :: address where
  "addressTwo = ''0x0000000000000000000000000000000000000002''"

definition addressThree :: address where
  "addressThree = ''0x0000000000000000000000000000000000000003''"

definition addressFour :: address where
  "addressFour = ''0x0000000000000000000000000000000000000004''"

definition plainDigest :: "byte list \<Rightarrow> hexString" where
  "plainDigest bs = map (\<lambda>b. char_of (unat b)) bs"

definition someMetadata :: json where
  "someMetadata = JObj [(''some'', JStr ''metadata'')]"

definition testEnv :: env where
  "testEnv =
     \<lparr>keccak256 = plainDigest,
      arrayify = utf8,
      ipfs = (\<lambda>cid. Inr someMetadata),
      getPrice = (\<lambda>tok chain t1 t2. Inr (case t2 of None \<Rightarrow> 0 | Some t \<Rightarrow> of_int t)),
      callApplicationMetaPtr = (\<lambda>a. Inr \<lparr>protocol = 0, pointer = ''test-cid''\<rparr>),
      callApplicationsStartTime = (\<lambda>a. Inr 0),
      callApplicationsEndTime = (\<lambda>a. Inr 0),
      callRoundStartTime = (\<lambda>a. Inr 0),
      callRoundEndTime = (\<lambda>a. Inr 0)\<rparr>"


definition emptyStorage :: jsonStorage where
  "emptyStorage =
     \<lparr>projects = [], rounds = [], roundProjects = (\<lambda>a. []), roundVotes = (\<lambda>a. []),
      projectVotes = (\<lambda>a p. []), writes = []\<rparr>"

definition emptyIndexer :: indexer where
  "emptyIndexer =
     \<lparr>chainId = 1, storage = emptyStorage, ipfsCache = Map.empty, priceCache = Map.empty,
      subscriptions = []\<rparr>"



definition ownerRemovedEvent :: event where
  "ownerRemovedEvent =
     \<lparr>name = ''OwnerRemoved'', address = addressOne, blockNumber = 1,
      transactionHash = ''0x'', args = OwnerRemovedArgs 1 addressTwo\<rparr>"

definition roleGrantedEvent :: event where
  "roleGrantedEvent =
     \<lparr>name = ''RoleGranted'', address = addressFour, blockNumber = 1,
      transactionHash = ''0x'',
      args = OtherArgs [(''role'', JStr zeroRole), (''account'', JStr addressTwo),
                        (''sender'', JStr addressThree)]\<rparr>"

definition twoOwnersIndexer :: indexer where
  "twoOwnersIndexer =
     emptyIndexer\<lparr>storage := emptyStorage\<lparr>projects :=
       [\<lparr>fullId = ''0xe31382b762a33e568e1e9ef38d64f4a2b4dbb51ec0f79ec41779fc5be79ead32'',
         id_p = 1, metaPtr_p = None, metadata_p = None, votesUSD_p = 0, votes_p = 0,
         owners = [addressTwo, addressThree]\<rparr>]\<rparr>\<rparr>"

definition votedEvent :: event where
  "votedEvent =
     \<lparr>name = ''Voted'', address = addressOne, blockNumber = 1, transactionHash = ''0x'',
      args = VotedArgs addressThree 1000000000000000000 addressTwo addressThree ''0xabc''
               addressFour\<rparr>"


definition unknownRoleEvent :: roleEvent where
  "unknownRoleEvent =
     \<lparr>re_chainId = 1, re_contractName = AlloV1_RoundImplementation_V1, re_name = RoleGranted,
      re_address = addressFour, re_blockNumber = 1,
      re_role = ''0x0000000000000000000000000000000000000000000000000000000000000001'',
      re_account = addressTwo\<rparr>"

section \<open>Keccak-256\<close>





























section \<open>The project identifier of the test\<close>














section \<open>ProjectCreated\<close>




section \<open>OwnerRemoved\<close>

text \<open>
  Claim C2. Handling \<^verbatim>\<open>OwnerRemoved\<close> should leave no owner entry equal to the event's
  owner. On a project owned by the second and the third address, removing the second address
  leaves exactly the second address: the callback keeps the entries equal to the removed owner
  and drops the others.
\<close>

theorem OwnerRemoved_keeps_only_removed_owner:
  "map owners (projects (storage (snd (handleEvent testEnv 0 twoOwnersIndexer ownerRemovedEvent))))
     = [[addressTwo]]"
  by (simp add: handleEvent_def handleOwnerRemoved_def ownerRemovedEvent_def twoOwnersIndexer_def
      emptyIndexer_def emptyStorage_def toNumber_def updateProjectById_def
      addressTwo_def addressThree_def)

section \<open>The wall clock\<close>








section \<open>Failing fetches and reads\<close>



























section \<open>Role constants and role events\<close>



text \<open>
  Claim C6. A \<^verbatim>\<open>RoleGranted\<close> or \<^verbatim>\<open>RoleRevoked\<close> event on a known contract whose role
  constant has no mapping in the role table compiles, without error, to the empty list of
  changesets.
\<close>

theorem unknown_role_constant_compiles_to_nothing:
  assumes "resolveRole (re_contractName ev) (re_role ev) = None"
  shows "compileRoleEvent ev = Inr []"
  using assms by (simp add: compileRoleEvent_def)

theorem unknown_role_constant_compiles_to_nothing_witness:
  "compileRoleEvent unknownRoleEvent = Inr []
   \<and> compileRoleEvent (unknownRoleEvent\<lparr>re_name := RoleRevoked\<rparr>) = Inr []"
proof -
  have "resolveRole (re_contractName unknownRoleEvent) (re_role unknownRoleEvent) = None"
    by (simp add: unknownRoleEvent_def resolveRole_def roleTable_def zeroRole_def
        roundManagerRole_def)
  then show ?thesis
    using unknown_role_constant_compiles_to_nothing [of unknownRoleEvent]
      unknown_role_constant_compiles_to_nothing [of "unknownRoleEvent\<lparr>re_name := RoleRevoked\<rparr>"]
    by simp
qed

section \<open>The project identifier across chains\<close>











section \<open>Events that write nothing\<close>

text \<open>
  Claim C8. For every event whose name is none of the nine handled names, the handler returns
  normally and leaves the indexer, its storage included, exactly as it was.
\<close>

theorem unhandled_event_is_noop:
  assumes "name e \<notin> {''ProjectCreated'', ''MetadataUpdated'', ''OwnerAdded'', ''OwnerRemoved'',
             ''RoundCreated'', ''NewProjectApplication'', ''ProjectsMetaPtrUpdated'',
             ''VotingContractCreated'', ''Voted''}"
  shows "handleEvent env now idx e = (Inr (), idx)"
  using assms by (simp add: handleEvent_def)

theorem unhandled_event_is_noop_witness:
  "handleEvent testEnv 0 emptyIndexer roleGrantedEvent = (Inr (), emptyIndexer)"
  using unhandled_event_is_noop [of roleGrantedEvent testEnv 0 emptyIndexer]
  by (simp add: roleGrantedEvent_def)

text \<open>
  Claim C9. For every \<^verbatim>\<open>Voted\<close> event, if the referenced application is not stored, or its
  status is not \<^verbatim>\<open>APPROVED\<close>, or the referenced round is not stored, the handler returns
  normally and leaves the indexer, its storage included, exactly as it was: no vote is
  inserted into either votes collection.
\<close>

theorem invalid_vote_leaves_storage:
  assumes "name e = ''Voted''"
    and "args e = VotedArgs tok amt votr grant pid rnd"
    and "find (\<lambda>a. id_a a = pid) (roundProjects (storage idx) rnd) = None
         \<or> (\<exists>app. find (\<lambda>a. id_a a = pid) (roundProjects (storage idx) rnd) = Some app
                \<and> status app \<noteq> Some (JStr ''APPROVED''))
         \<or> find (\<lambda>r. id_r r = rnd) (rounds (storage idx)) = None"
  shows "handleEvent env now idx e = (Inr (), idx)"
  using assms by (auto simp: handleEvent_def handleVoted_def Let_def split: option.splits)

theorem invalid_vote_leaves_storage_witness:
  "handleEvent testEnv 0 emptyIndexer votedEvent = (Inr (), emptyIndexer)"
  using invalid_vote_leaves_storage [of votedEvent addressThree 1000000000000000000 addressTwo
      addressThree "''0xabc''" addressFour emptyIndexer testEnv 0]
  by (simp add: votedEvent_def emptyIndexer_def emptyStorage_def)

section \<open>Properties of the time chunks\<close>


lemma chunksFrom_members:
  "chunksFrom millis chunkBy i cs \<Longrightarrow> 0 < chunkBy \<Longrightarrow> (a, b) \<in> set cs \<Longrightarrow>
     i \<le> a \<and> a < millis \<and> b = min (a + chunkBy) millis"
  by (induction cs arbitrary: i) (auto, force+)





end
